theory Spec2Isabelle
  imports Main "HOL-Library.Word"
begin

unbundle bit_operations_syntax

section \<open>Platform types and constants\<close>

text \<open>
  fawrap.c is a preload library for Linux/glibc. Its integer types are taken at the widths
  of the LP64 ABI: \<open>int\<close> and \<open>mode_t\<close> are 32 bits, \<open>off_t\<close>, \<open>off64_t\<close>, \<open>size_t\<close> and
  \<open>ssize_t\<close> are 64 bits. \<open>off_t\<close>, \<open>off64_t\<close> and \<open>ssize_t\<close> are signed, so comparisons
  on them are the signed ones (\<open><s\<close>); addition and subtraction wrap around.
  The constants below are those of the Linux headers the file includes.
\<close>

type_synonym c_int = "32 word"
type_synonym mode_t = "32 word"
type_synonym off_t = "64 word"
type_synonym off64_t = "64 word"
type_synonym size_t = "64 word"
type_synonym ssize_t = "64 word"

definition MAX_FD :: nat where
  "MAX_FD = 16"

definition EINVAL :: c_int where
  "EINVAL = 22"

definition ENOSPC :: c_int where
  "ENOSPC = 28"

definition SEEK_SET :: c_int where
  "SEEK_SET = 0"

definition O_CREAT :: c_int where
  "O_CREAT = 64"

definition LOG_ERR :: "8 word" where
  "LOG_ERR = 2"

definition LOG_INFO :: "8 word" where
  "LOG_INFO = 3"

definition LOG_DBG :: "8 word" where
  "LOG_DBG = 4"

section \<open>State\<close>

text \<open>
  The static variables of fawrap.c. \<open>target_name\<close> is a \<open>char *\<close> that is \<open>NULL\<close> until
  \<open>init\<close> has run; \<open>target_fd\<close> is the array of \<open>MAX_FD\<close> descriptors, in which the value 0
  marks a free slot; \<open>debug_stream\<close> records whether the log \<open>FILE *\<close> is non-\<open>NULL\<close>.
  \<open>dprint\<close> writes diagnostics to standard output and to the log only: it reads
  \<open>debug_level\<close>, and nothing in the library reads what it wrote, so the text it emits is
  left out of the state.
\<close>

record fawrap =
  target_name :: "string option"
  target_fd :: "c_int list"
  segment_offset :: off64_t
  segment_len :: off64_t
  debug_level :: "8 word"
  debug_stream :: bool

text \<open>
  What lies outside the library: \<open>errno\<close>, and everything the real calls act on (files,
  their positions and contents, the memory behind \<open>void *\<close> buffers), left abstract.
\<close>

record 'w sys =
  errno :: c_int
  world :: 'w

text \<open>
  The fields of \<open>struct stat\<close> and \<open>struct stat64\<close> that the library names; all the other
  fields live in the extension part of the record.
\<close>

record stat =
  st_mode :: "32 word"
  st_size :: off64_t

text \<open>
  The real implementations that \<open>init\<close> resolves with \<open>dlsym(RTLD_NEXT, ...)\<close>. They are
  parameters of the model: each takes the arguments of the C function and the outside
  state and returns its result and the new outside state. A status query also takes the
  contents of \<open>*buf\<close> and returns what it left there.
\<close>

record ('w, 'b) real_ops =
  p_open :: "string \<Rightarrow> c_int \<Rightarrow> mode_t \<Rightarrow> 'w sys \<Rightarrow> c_int \<times> 'w sys"
  p_open64 :: "string \<Rightarrow> c_int \<Rightarrow> mode_t \<Rightarrow> 'w sys \<Rightarrow> c_int \<times> 'w sys"
  p_open64_2 :: "string \<Rightarrow> c_int \<Rightarrow> 'w sys \<Rightarrow> c_int \<times> 'w sys"
  p_close :: "c_int \<Rightarrow> 'w sys \<Rightarrow> c_int \<times> 'w sys"
  p_lseek :: "c_int \<Rightarrow> off_t \<Rightarrow> c_int \<Rightarrow> 'w sys \<Rightarrow> off_t \<times> 'w sys"
  p_lseek64 :: "c_int \<Rightarrow> off64_t \<Rightarrow> c_int \<Rightarrow> 'w sys \<Rightarrow> off64_t \<times> 'w sys"
  p_xstat :: "c_int \<Rightarrow> string \<Rightarrow> 'b stat_scheme \<Rightarrow> 'w sys \<Rightarrow> c_int \<times> 'b stat_scheme \<times> 'w sys"
  p_xstat64 :: "c_int \<Rightarrow> string \<Rightarrow> 'b stat_scheme \<Rightarrow> 'w sys \<Rightarrow> c_int \<times> 'b stat_scheme \<times> 'w sys"
  p_fstat :: "c_int \<Rightarrow> 'b stat_scheme \<Rightarrow> 'w sys \<Rightarrow> c_int \<times> 'b stat_scheme \<times> 'w sys"
  p_fstat64 :: "c_int \<Rightarrow> 'b stat_scheme \<Rightarrow> 'w sys \<Rightarrow> c_int \<times> 'b stat_scheme \<times> 'w sys"
  p_fxstat64 :: "c_int \<Rightarrow> c_int \<Rightarrow> 'b stat_scheme \<Rightarrow> 'w sys \<Rightarrow> c_int \<times> 'b stat_scheme \<times> 'w sys"
  p_fallocate :: "c_int \<Rightarrow> c_int \<Rightarrow> off_t \<Rightarrow> off_t \<Rightarrow> 'w sys \<Rightarrow> c_int \<times> 'w sys"
  p_pread64 :: "c_int \<Rightarrow> 64 word \<Rightarrow> size_t \<Rightarrow> off64_t \<Rightarrow> 'w sys \<Rightarrow> ssize_t \<times> 'w sys"
  p_pwrite64 :: "c_int \<Rightarrow> 64 word \<Rightarrow> size_t \<Rightarrow> off64_t \<Rightarrow> 'w sys \<Rightarrow> ssize_t \<times> 'w sys"

text \<open>A call either ends the process with \<open>exit(status)\<close> or returns.\<close>

datatype 'a outcome = Exit c_int | Ret 'a

section \<open>The descriptor registry\<close>

text \<open>
  \<open>check_name\<close> is \<open>strcmp(path, target_name) == 0\<close>. The wrappers run after \<open>init\<close>, which
  exits or leaves \<open>target_name\<close> non-\<open>NULL\<close>. The three loops over the slots of \<open>target_fd\<close>
  are recursions on the index \<open>i\<close>.
\<close>

definition check_name :: "fawrap \<Rightarrow> string \<Rightarrow> bool" where
  "check_name st path = (target_name st = Some path)"

function check_fd_loop :: "c_int list \<Rightarrow> c_int \<Rightarrow> nat \<Rightarrow> bool" where
  "check_fd_loop tfd fd i =
     (if i < MAX_FD then
        (if fd = tfd ! i then True else check_fd_loop tfd fd (Suc i))
      else False)"
  by pat_completeness auto
termination
  by (relation "measure (\<lambda>(tfd, fd, i). MAX_FD - i)") auto

definition check_fd :: "fawrap \<Rightarrow> c_int \<Rightarrow> bool" where
  "check_fd st fd = check_fd_loop (target_fd st) fd 0"

function add_fd_loop :: "c_int list \<Rightarrow> c_int \<Rightarrow> nat \<Rightarrow> bool \<times> c_int list" where
  "add_fd_loop tfd fd i =
     (if i < MAX_FD then
        (if tfd ! i = 0 then (False, tfd[i := fd]) else add_fd_loop tfd fd (Suc i))
      else (True, tfd))"
  by pat_completeness auto
termination
  by (relation "measure (\<lambda>(tfd, fd, i). MAX_FD - i)") auto

definition add_fd :: "fawrap \<Rightarrow> c_int \<Rightarrow> bool \<times> fawrap" where
  "add_fd st fd =
     (case add_fd_loop (target_fd st) fd 0 of
        (full, tfd) \<Rightarrow> (full, st\<lparr>target_fd := tfd\<rparr>))"

function remove_fd_loop :: "c_int list \<Rightarrow> c_int \<Rightarrow> nat \<Rightarrow> c_int list option" where
  "remove_fd_loop tfd fd i =
     (if i < MAX_FD then
        (if fd = tfd ! i then Some (tfd[i := 0]) else remove_fd_loop tfd fd (Suc i))
      else None)"
  by pat_completeness auto
termination
  by (relation "measure (\<lambda>(tfd, fd, i). MAX_FD - i)") auto

definition remove_fd :: "fawrap \<Rightarrow> c_int \<Rightarrow> fawrap outcome" where
  "remove_fd st fd =
     (case remove_fd_loop (target_fd st) fd 0 of
        Some tfd \<Rightarrow> Ret (st\<lparr>target_fd := tfd\<rparr>)
      | None \<Rightarrow> Exit 1)"

section \<open>Window configuration\<close>

text \<open>
  The two C library functions \<open>init\<close> parses with, as the C standard defines them.
  \<open>strtok\<close> keeps a pointer into the string between calls; here it is passed in and
  returned. A call skips leading delimiters, returns \<open>NULL\<close> if nothing is left, and
  otherwise returns the token up to the next delimiter and saves what follows it.
\<close>

definition strtok :: "string option \<Rightarrow> string \<Rightarrow> string \<Rightarrow> string option \<times> string" where
  "strtok str delim olds =
     (let s = (case str of Some a \<Rightarrow> a | None \<Rightarrow> olds);
          s1 = dropWhile (\<lambda>c. c \<in> set delim) s
      in if s1 = [] then (None, [])
         else (Some (takeWhile (\<lambda>c. c \<notin> set delim) s1),
               drop 1 (dropWhile (\<lambda>c. c \<notin> set delim) s1)))"

definition isspace :: "char \<Rightarrow> bool" where
  "isspace c = (of_char c \<in> {32, 9, 10, 11, 12, 13 :: int})"

definition isdigit :: "char \<Rightarrow> bool" where
  "isdigit c = (48 \<le> (of_char c :: int) \<and> (of_char c :: int) \<le> 57)"

fun digits_value :: "string \<Rightarrow> int \<Rightarrow> int" where
  "digits_value [] acc = acc"
| "digits_value (c # cs) acc =
     (if isdigit c then digits_value cs (10 * acc + (of_char c - 48)) else acc)"

text \<open>
  \<open>strtoull(p, NULL, 10)\<close>: white space, an optional sign, then the longest run of
  decimal digits; 0 when there is no digit, \<open>ULLONG_MAX\<close> when the value does not fit,
  the negated value (modulo \<open>2^64\<close>) after a minus sign. With a \<open>NULL\<close> end pointer the
  caller cannot tell a field without digits from the number 0.
\<close>

definition strtoull :: "string \<Rightarrow> 64 word" where
  "strtoull p =
     (let s1 = dropWhile isspace p;
          neg = (s1 \<noteq> [] \<and> hd s1 = CHR ''-'');
          s2 = (if s1 \<noteq> [] \<and> (hd s1 = CHR ''-'' \<or> hd s1 = CHR ''+'') then tl s1 else s1);
          v = digits_value s2 0
      in if 18446744073709551616 \<le> v then - 1
         else if neg then - word_of_int v
         else word_of_int v)"

function init_fd_loop :: "c_int list \<Rightarrow> nat \<Rightarrow> c_int list" where
  "init_fd_loop tfd i = (if i < MAX_FD then init_fd_loop (tfd[i := 0]) (Suc i) else tfd)"
  by pat_completeness auto
termination
  by (relation "measure (\<lambda>(tfd, i). MAX_FD - i)") auto

text \<open>
  The static variables as the loader leaves them before the constructor runs.
\<close>

definition static_init :: fawrap where
  "static_init =
     \<lparr>target_name = None, target_fd = replicate MAX_FD 0, segment_offset = 0,
      segment_len = 0, debug_level = 2, debug_stream = False\<rparr>"

text \<open>
  \<open>init\<close>, the constructor. \<open>env\<close> is what \<open>getenv("FILE")\<close> returns and \<open>fopen_ok\<close>
  says whether \<open>fopen("fawrap.log", "w")\<close> would succeed.
\<close>

definition init :: "string option \<Rightarrow> bool \<Rightarrow> fawrap outcome" where
  "init env fopen_ok =
     (let st0 = static_init\<lparr>target_fd := init_fd_loop (target_fd static_init) 0\<rparr> in
      case env of
        None \<Rightarrow> Exit 1
      | Some args \<Rightarrow>
          (case strtok (Some args) '','' [] of (tn, olds1) \<Rightarrow>
           let st1 = st0\<lparr>target_name := tn\<rparr> in
           case strtok None '','' olds1 of
             (None, olds2) \<Rightarrow> Exit 1
           | (Some p1, olds2) \<Rightarrow>
               let st2 = st1\<lparr>segment_offset := strtoull p1\<rparr> in
               (case strtok None '','' olds2 of
                  (None, olds3) \<Rightarrow> Exit 1
                | (Some p2, olds3) \<Rightarrow>
                    let st3 = st2\<lparr>segment_len := strtoull p2\<rparr>;
                        st4 = (case fst (strtok None '','' olds3) of
                                 None \<Rightarrow> st3
                               | Some p3 \<Rightarrow>
                                   if p3 = ''d'' then st3\<lparr>debug_level := LOG_DBG\<rparr>
                                   else if p3 = ''i'' then st3\<lparr>debug_level := LOG_INFO\<rparr>
                                   else st3)
                    in if LOG_INFO \<le> debug_level st4 then
                         (if fopen_ok then Ret (st4\<lparr>debug_stream := True\<rparr>) else Exit 1)
                       else Ret st4)))"

section \<open>The intercepted operations\<close>

text \<open>
  Each wrapper takes the real implementations, the library's state, the arguments of the
  C function and the outside state. \<open>open\<close> and \<open>open64\<close> are variadic: \<open>vmode\<close> is the
  argument that follows \<open>flags\<close>, read only when \<open>O_CREAT\<close> is set.
\<close>

definition open_c :: "('w, 'b) real_ops \<Rightarrow> fawrap \<Rightarrow> string \<Rightarrow> c_int \<Rightarrow> mode_t \<Rightarrow> 'w sys
    \<Rightarrow> (c_int \<times> fawrap \<times> 'w sys) outcome" where
  "open_c ops st path flags vmode s =
     (let mode = (if flags AND O_CREAT \<noteq> 0 then vmode else 0);
          (res, s1) = p_open ops path flags mode s
      in if check_name st path then
           (case add_fd st res of
              (full, st1) \<Rightarrow> if full then Exit 1 else Ret (res, st1, s1))
         else Ret (res, st, s1))"

definition open64 :: "('w, 'b) real_ops \<Rightarrow> fawrap \<Rightarrow> string \<Rightarrow> c_int \<Rightarrow> mode_t \<Rightarrow> 'w sys
    \<Rightarrow> (c_int \<times> fawrap \<times> 'w sys) outcome" where
  "open64 ops st path flags vmode s =
     (let mode = (if flags AND O_CREAT \<noteq> 0 then vmode else 0);
          (res, s1) = p_open64 ops path flags mode s
      in if check_name st path then
           (case add_fd st res of
              (full, st1) \<Rightarrow> if full then Exit 1 else Ret (res, st1, s1))
         else Ret (res, st, s1))"

definition open64_2 :: "('w, 'b) real_ops \<Rightarrow> fawrap \<Rightarrow> string \<Rightarrow> c_int \<Rightarrow> 'w sys
    \<Rightarrow> (c_int \<times> fawrap \<times> 'w sys) outcome" where
  "open64_2 ops st path flags s =
     (let (res, s1) = p_open64_2 ops path flags s
      in if check_name st path then
           (case add_fd st res of
              (full, st1) \<Rightarrow> if full then Exit 1 else Ret (res, st1, s1))
         else Ret (res, st, s1))"

definition close :: "('w, 'b) real_ops \<Rightarrow> fawrap \<Rightarrow> c_int \<Rightarrow> 'w sys
    \<Rightarrow> (c_int \<times> fawrap \<times> 'w sys) outcome" where
  "close ops st fd s =
     (let (res, s1) = p_close ops fd s
      in if check_fd st fd then
           (case remove_fd st fd of
              Exit e \<Rightarrow> Exit e
            | Ret st1 \<Rightarrow> Ret (res, st1, s1))
         else Ret (res, st, s1))"

text \<open>
  The seeks. \<open>return EINVAL\<close> converts the \<open>int\<close> constant to the offset type and leaves
  \<open>errno\<close> alone; after the real call a tracked descriptor gets \<open>errno = EINVAL\<close> and
  \<open>res = -1\<close> on a mismatch, and in either case \<open>res -= segment_offset\<close>.
\<close>

definition lseek :: "('w, 'b) real_ops \<Rightarrow> fawrap \<Rightarrow> c_int \<Rightarrow> off_t \<Rightarrow> c_int \<Rightarrow> 'w sys
    \<Rightarrow> (off_t \<times> 'w sys) outcome" where
  "lseek ops st fd offset whence s =
     (if check_fd st fd \<and> whence \<noteq> SEEK_SET then Exit 1
      else if check_fd st fd \<and> segment_len st <s offset then Ret (scast EINVAL, s)
      else
        let offset_new = (if check_fd st fd then offset + segment_offset st else offset);
            (res, s1) = p_lseek ops fd offset_new whence s;
            (res, s2) =
              (if check_fd st fd then
                 (let (res, s2) = (if res \<noteq> offset_new then (- 1, s1\<lparr>errno := EINVAL\<rparr>)
                                   else (res, s1))
                  in (res - segment_offset st, s2))
               else (res, s1))
        in Ret (res, s2))"

definition lseek64 :: "('w, 'b) real_ops \<Rightarrow> fawrap \<Rightarrow> c_int \<Rightarrow> off64_t \<Rightarrow> c_int \<Rightarrow> 'w sys
    \<Rightarrow> (off64_t \<times> 'w sys) outcome" where
  "lseek64 ops st fd offset whence s =
     (if check_fd st fd \<and> whence \<noteq> SEEK_SET then Exit 1
      else if check_fd st fd \<and> segment_len st <s offset then Ret (scast EINVAL, s)
      else
        let offset_new = (if check_fd st fd then offset + segment_offset st else offset);
            (res, s1) = p_lseek64 ops fd offset_new whence s;
            (res, s2) =
              (if check_fd st fd then
                 (let (res, s2) = (if res \<noteq> offset_new then (- 1, s1\<lparr>errno := EINVAL\<rparr>)
                                   else (res, s1))
                  in (res - segment_offset st, s2))
               else (res, s1))
        in Ret (res, s2))"

text \<open>
  The status queries call the real query and then store \<open>segment_len\<close> in
  \<open>buf->st_size\<close>; \<open>check_name\<close> and \<open>check_fd\<close> appear only as an argument of \<open>dprint\<close>.
  \<open>buf\<close> is what \<open>*buf\<close> holds at the call; the second component of the result is what
  it holds at the return.
\<close>

definition xstat :: "('w, 'b) real_ops \<Rightarrow> fawrap \<Rightarrow> c_int \<Rightarrow> string \<Rightarrow> 'b stat_scheme \<Rightarrow> 'w sys
    \<Rightarrow> c_int \<times> 'b stat_scheme \<times> 'w sys" where
  "xstat ops st x path buf s =
     (let (res, buf1, s1) = p_xstat ops x path buf s
      in (res, buf1\<lparr>st_size := segment_len st\<rparr>, s1))"

definition xstat64 :: "('w, 'b) real_ops \<Rightarrow> fawrap \<Rightarrow> c_int \<Rightarrow> string \<Rightarrow> 'b stat_scheme \<Rightarrow> 'w sys
    \<Rightarrow> c_int \<times> 'b stat_scheme \<times> 'w sys" where
  "xstat64 ops st x path buf s =
     (let (res, buf1, s1) = p_xstat64 ops x path buf s
      in (res, buf1\<lparr>st_size := segment_len st\<rparr>, s1))"

definition fstat :: "('w, 'b) real_ops \<Rightarrow> fawrap \<Rightarrow> c_int \<Rightarrow> 'b stat_scheme \<Rightarrow> 'w sys
    \<Rightarrow> c_int \<times> 'b stat_scheme \<times> 'w sys" where
  "fstat ops st fd buf s =
     (let (res, buf1, s1) = p_fstat ops fd buf s
      in (res, buf1\<lparr>st_size := scast (segment_len st)\<rparr>, s1))"

definition fstat64 :: "('w, 'b) real_ops \<Rightarrow> fawrap \<Rightarrow> c_int \<Rightarrow> 'b stat_scheme \<Rightarrow> 'w sys
    \<Rightarrow> c_int \<times> 'b stat_scheme \<times> 'w sys" where
  "fstat64 ops st fd buf s =
     (let (res, buf1, s1) = p_fstat64 ops fd buf s
      in (res, buf1\<lparr>st_size := segment_len st\<rparr>, s1))"

definition fxstat64 :: "('w, 'b) real_ops \<Rightarrow> fawrap \<Rightarrow> c_int \<Rightarrow> c_int \<Rightarrow> 'b stat_scheme \<Rightarrow> 'w sys
    \<Rightarrow> c_int \<times> 'b stat_scheme \<times> 'w sys" where
  "fxstat64 ops st vers fd buf s =
     (let (res, buf1, s1) = p_fxstat64 ops vers fd buf s
      in (res, buf1\<lparr>st_size := segment_len st\<rparr>, s1))"

text \<open>
  Space allocation and the positioned transfers. \<open>fallocate\<close> keeps the real result in an
  \<open>off_t\<close> and returns it as an \<open>int\<close>. \<open>buf\<close> is the address of the caller's buffer.
\<close>

definition fallocate :: "('w, 'b) real_ops \<Rightarrow> fawrap \<Rightarrow> c_int \<Rightarrow> c_int \<Rightarrow> off_t \<Rightarrow> off_t \<Rightarrow> 'w sys
    \<Rightarrow> c_int \<times> 'w sys" where
  "fallocate ops st fd mode offset len s =
     (if check_fd st fd \<and> segment_len st <s offset then (ENOSPC, s)
      else
        let offset_new = (if check_fd st fd then offset + segment_offset st else offset);
            (r, s1) = p_fallocate ops fd mode offset_new len s;
            res = (scast r :: off_t)
        in (scast res, s1))"

definition pread64 :: "('w, 'b) real_ops \<Rightarrow> fawrap \<Rightarrow> c_int \<Rightarrow> 64 word \<Rightarrow> size_t \<Rightarrow> off64_t \<Rightarrow> 'w sys
    \<Rightarrow> ssize_t \<times> 'w sys" where
  "pread64 ops st fd buf count offset s =
     (if check_fd st fd \<and> segment_len st <s offset then (scast ENOSPC, s)
      else
        let offset_new = (if check_fd st fd then offset + segment_offset st else offset)
        in p_pread64 ops fd buf count offset_new s)"

definition pwrite64 :: "('w, 'b) real_ops \<Rightarrow> fawrap \<Rightarrow> c_int \<Rightarrow> 64 word \<Rightarrow> size_t \<Rightarrow> off64_t \<Rightarrow> 'w sys
    \<Rightarrow> ssize_t \<times> 'w sys" where
  "pwrite64 ops st fd buf count offset s =
     (if check_fd st fd \<and> segment_len st <s offset then (scast EINVAL, s)
      else
        let offset_new = (if check_fd st fd then offset + segment_offset st else offset)
        in p_pwrite64 ops fd buf count offset_new s)"

section \<open>A test double for the real file operations\<close>

text \<open>
  A small stand-in for the operating system, for running the wrappers on concrete calls:
  a table of existing paths with their real sizes and a table of open descriptors.
  Opening an existing path returns the next descriptor from 3 on, a missing path gives
  \<open>-1\<close> with \<open>ENOENT\<close> (2); an operation on a descriptor that is not open gives \<open>-1\<close>
  with \<open>EBADF\<close> (9); a seek or a transfer at a negative offset gives \<open>-1\<close> with
  \<open>EINVAL\<close> (22); a status query reports mode \<open>0100644\<close> and the real size.
\<close>

record toy =
  toy_files :: "(string \<times> off64_t) list"
  toy_open :: "(c_int \<times> string) list"

definition toy_open_path :: "string \<Rightarrow> toy sys \<Rightarrow> c_int \<times> toy sys" where
  "toy_open_path path s =
     (case map_of (toy_files (world s)) path of
        None \<Rightarrow> (- 1, s\<lparr>errno := 2\<rparr>)
      | Some sz \<Rightarrow>
          let fd = 3 + of_nat (length (toy_open (world s)))
          in (fd, s\<lparr>world := (world s)\<lparr>toy_open := toy_open (world s) @ [(fd, path)]\<rparr>\<rparr>))"

definition toy_close :: "c_int \<Rightarrow> toy sys \<Rightarrow> c_int \<times> toy sys" where
  "toy_close fd s =
     (case map_of (toy_open (world s)) fd of
        None \<Rightarrow> (- 1, s\<lparr>errno := 9\<rparr>)
      | Some path \<Rightarrow>
          (0, s\<lparr>world := (world s)\<lparr>toy_open := filter (\<lambda>e. fst e \<noteq> fd) (toy_open (world s))\<rparr>\<rparr>))"

definition toy_lseek :: "c_int \<Rightarrow> off64_t \<Rightarrow> c_int \<Rightarrow> toy sys \<Rightarrow> off64_t \<times> toy sys" where
  "toy_lseek fd offset whence s =
     (case map_of (toy_open (world s)) fd of
        None \<Rightarrow> (- 1, s\<lparr>errno := 9\<rparr>)
      | Some path \<Rightarrow>
          if whence = 0 \<and> 0 \<le>s offset then (offset, s) else (- 1, s\<lparr>errno := 22\<rparr>))"

definition toy_stat_path :: "string \<Rightarrow> 'b stat_scheme \<Rightarrow> toy sys \<Rightarrow> c_int \<times> 'b stat_scheme \<times> toy sys" where
  "toy_stat_path path buf s =
     (case map_of (toy_files (world s)) path of
        None \<Rightarrow> (- 1, buf, s\<lparr>errno := 2\<rparr>)
      | Some sz \<Rightarrow> (0, buf\<lparr>st_mode := 33188, st_size := sz\<rparr>, s))"

definition toy_stat_fd :: "c_int \<Rightarrow> 'b stat_scheme \<Rightarrow> toy sys \<Rightarrow> c_int \<times> 'b stat_scheme \<times> toy sys" where
  "toy_stat_fd fd buf s =
     (case map_of (toy_open (world s)) fd of
        None \<Rightarrow> (- 1, buf, s\<lparr>errno := 9\<rparr>)
      | Some path \<Rightarrow> toy_stat_path path buf s)"

definition toy_fallocate :: "c_int \<Rightarrow> c_int \<Rightarrow> off_t \<Rightarrow> off_t \<Rightarrow> toy sys \<Rightarrow> c_int \<times> toy sys" where
  "toy_fallocate fd mode offset len s =
     (case map_of (toy_open (world s)) fd of
        None \<Rightarrow> (- 1, s\<lparr>errno := 9\<rparr>)
      | Some path \<Rightarrow> (0, s))"

definition toy_transfer :: "c_int \<Rightarrow> 64 word \<Rightarrow> size_t \<Rightarrow> off64_t \<Rightarrow> toy sys \<Rightarrow> ssize_t \<times> toy sys" where
  "toy_transfer fd buf count offset s =
     (case map_of (toy_open (world s)) fd of
        None \<Rightarrow> (- 1, s\<lparr>errno := 9\<rparr>)
      | Some path \<Rightarrow> if offset <s 0 then (- 1, s\<lparr>errno := 22\<rparr>) else (count, s))"

definition toy_ops :: "(toy, unit) real_ops" where
  "toy_ops =
     \<lparr>p_open = (\<lambda>path flags mode. toy_open_path path),
      p_open64 = (\<lambda>path flags mode. toy_open_path path),
      p_open64_2 = (\<lambda>path flags. toy_open_path path),
      p_close = toy_close,
      p_lseek = toy_lseek,
      p_lseek64 = toy_lseek,
      p_xstat = (\<lambda>x. toy_stat_path),
      p_xstat64 = (\<lambda>x. toy_stat_path),
      p_fstat = toy_stat_fd,
      p_fstat64 = toy_stat_fd,
      p_fxstat64 = (\<lambda>vers. toy_stat_fd),
      p_fallocate = toy_fallocate,
      p_pread64 = toy_transfer,
      p_pwrite64 = toy_transfer\<rparr>"

text \<open>
  The configuration of the usage example, \<open>FILE=disk.img,44040192,33554944\<close>:
  \<open>scen_fresh\<close> is the state \<open>init\<close> leaves, \<open>scen\<close> the state after one open of the
  target returned descriptor 3, \<open>scen_full\<close> a state with all sixteen slots taken.
  \<open>toy_fresh\<close> is a system in which no descriptor is open, \<open>toy_sys\<close> one in which 3 is
  \<open>disk.img\<close> and 4 is another file, \<open>toy_nofile\<close> one in which \<open>disk.img\<close> does not
  exist.
\<close>

definition scen_fresh :: fawrap where
  "scen_fresh =
     \<lparr>target_name = Some ''disk.img'', target_fd = replicate 16 0,
      segment_offset = 44040192, segment_len = 33554944,
      debug_level = 2, debug_stream = False\<rparr>"

definition scen :: fawrap where
  "scen = scen_fresh\<lparr>target_fd := 3 # replicate 15 0\<rparr>"

definition scen_full :: fawrap where
  "scen_full = scen_fresh\<lparr>target_fd := [3, 4, 5, 6, 7, 8, 9, 10, 11, 12, 13, 14, 15, 16, 17, 18]\<rparr>"

definition toy_fresh :: "toy sys" where
  "toy_fresh =
     \<lparr>errno = 0,
      world = \<lparr>toy_files = [(''disk.img'', 1073741824), (''/etc/mke2fs.conf'', 1000)],
               toy_open = []\<rparr>\<rparr>"

definition toy_sys :: "toy sys" where
  "toy_sys = toy_fresh\<lparr>world := (world toy_fresh)\<lparr>toy_open := [(3, ''disk.img''), (4, ''/etc/mke2fs.conf'')]\<rparr>\<rparr>"

definition buf0 :: stat where
  "buf0 = \<lparr>st_mode = 0, st_size = 0\<rparr>"

definition toy_nofile :: "toy sys" where
  "toy_nofile = \<lparr>errno = 0, world = \<lparr>toy_files = [(''/etc/mke2fs.conf'', 1000)], toy_open = []\<rparr>\<rparr>"

text \<open>
  Two windows at the edge of the offset type, each with descriptor 3 tracked: \<open>scen_max\<close>
  is \<open>FILE=disk.img,9223372036854775807,9223372036854775807\<close>, whose end \<open>B + L\<close> fits 64
  unsigned bits but not an \<open>off64_t\<close>; \<open>scen_big\<close> is \<open>FILE=disk.img,0,9223372036854775808\<close>,
  whose length \<open>2^63\<close> is a negative \<open>off64_t\<close>.
\<close>

definition scen_max :: fawrap where
  "scen_max = scen\<lparr>segment_offset := 9223372036854775807, segment_len := 9223372036854775807\<rparr>"

definition scen_big :: fawrap where
  "scen_big = scen\<lparr>segment_offset := 0, segment_len := 9223372036854775808\<rparr>"

text \<open>
  The tokens that successive calls of \<open>strtok\<close> with the delimiter \<open>","\<close> return for a
  string: its non-empty comma-separated fields, in order.
\<close>

function fields :: "string \<Rightarrow> string list" where
  "fields s =
     (case strtok None '','' s of
        (None, olds) \<Rightarrow> []
      | (Some t, olds) \<Rightarrow> t # fields olds)"
  by pat_completeness auto
termination
proof (relation "measure length", simp, simp add: strtok_def Let_def split: if_splits)
  fix s :: string
  let ?s1 = "dropWhile (\<lambda>c. c = CHR '','') s"
  assume "\<exists>x\<in>set s. x \<noteq> CHR '',''"
  then have "?s1 \<noteq> []" by (simp add: dropWhile_eq_Nil_conv)
  then have "0 < length ?s1" by simp
  moreover have "length (dropWhile (\<lambda>c. c \<noteq> CHR '','') ?s1) \<le> length ?s1"
    by (rule length_dropWhile_le)
  moreover have "length ?s1 \<le> length s"
    by (rule length_dropWhile_le)
  ultimately show "length (dropWhile (\<lambda>c. c \<noteq> CHR '','') ?s1) - Suc 0 < length s"
    by arith
qed

section \<open>Properties of the registry and of the wrappers\<close>

declare check_fd_loop.simps [simp del]
declare add_fd_loop.simps [simp del]
declare remove_fd_loop.simps [simp del]
declare init_fd_loop.simps [simp del]
declare fields.simps [simp del]

lemma check_fd_loop_iff:
  "check_fd_loop tfd fd i \<longleftrightarrow> (\<exists>j. i \<le> j \<and> j < MAX_FD \<and> tfd ! j = fd)"
proof (induction tfd fd i rule: check_fd_loop.induct)
  case (1 tfd fd i)
  show ?case
  proof (cases "i < MAX_FD")
    case False
    then show ?thesis by (subst check_fd_loop.simps) auto
  next
    case True
    show ?thesis
    proof (cases "fd = tfd ! i")
      case True
      with \<open>i < MAX_FD\<close> show ?thesis by (subst check_fd_loop.simps) auto
    next
      case False
      have "check_fd_loop tfd fd i = check_fd_loop tfd fd (Suc i)"
        using False \<open>i < MAX_FD\<close> by (subst check_fd_loop.simps) simp
      also have "\<dots> \<longleftrightarrow> (\<exists>j. Suc i \<le> j \<and> j < MAX_FD \<and> tfd ! j = fd)"
        using "1.IH" [OF \<open>i < MAX_FD\<close> False] .
      also have "\<dots> \<longleftrightarrow> (\<exists>j. i \<le> j \<and> j < MAX_FD \<and> tfd ! j = fd)"
        using False by (metis Suc_leD Suc_leI le_neq_implies_less)
      finally show ?thesis .
    qed
  qed
qed

lemma check_fd_iff: "check_fd st fd \<longleftrightarrow> (\<exists>j<MAX_FD. target_fd st ! j = fd)"
  by (simp add: check_fd_def check_fd_loop_iff)

lemma check_fd_set:
  "length (target_fd st) = MAX_FD \<Longrightarrow> check_fd st fd \<longleftrightarrow> fd \<in> set (target_fd st)"
  by (auto simp: check_fd_iff in_set_conv_nth)

lemma add_fd_loop_full:
  "(\<And>j. i \<le> j \<Longrightarrow> j < MAX_FD \<Longrightarrow> tfd ! j \<noteq> 0) \<Longrightarrow> add_fd_loop tfd fd i = (True, tfd)"
proof (induction tfd fd i rule: add_fd_loop.induct)
  case (1 tfd fd i)
  show ?case
  proof (cases "i < MAX_FD")
    case False
    then show ?thesis by (subst add_fd_loop.simps) simp
  next
    case True
    then have nz: "tfd ! i \<noteq> 0" using "1.prems" by simp
    have "add_fd_loop tfd fd (Suc i) = (True, tfd)"
      using "1.IH" [OF True nz] "1.prems" by simp
    then show ?thesis using True nz by (subst add_fd_loop.simps) simp
  qed
qed

lemma add_fd_full: "\<not> check_fd st 0 \<Longrightarrow> add_fd st fd = (True, st)"
  by (simp add: add_fd_def check_fd_iff add_fd_loop_full)

lemma add_fd_loop_free:
  "i \<le> k \<Longrightarrow> k < MAX_FD \<Longrightarrow> tfd ! k = 0 \<Longrightarrow>
   \<exists>j. i \<le> j \<and> j \<le> k \<and> tfd ! j = 0 \<and> add_fd_loop tfd fd i = (False, tfd[j := fd])"
proof (induction tfd fd i rule: add_fd_loop.induct)
  case (1 tfd fd i)
  from "1.prems" have lt: "i < MAX_FD" by simp
  show ?case
  proof (cases "tfd ! i = 0")
    case True
    then have "add_fd_loop tfd fd i = (False, tfd[i := fd])"
      using lt by (subst add_fd_loop.simps) simp
    with True "1.prems" show ?thesis by blast
  next
    case False
    with "1.prems" have "Suc i \<le> k" by (metis Suc_leI le_neq_implies_less)
    from "1.IH" [OF lt False this "1.prems"(2,3)]
    obtain j where j: "Suc i \<le> j" "j \<le> k" "tfd ! j = 0"
      "add_fd_loop tfd fd (Suc i) = (False, tfd[j := fd])" by blast
    have "add_fd_loop tfd fd i = add_fd_loop tfd fd (Suc i)"
      using lt False by (subst add_fd_loop.simps) simp
    with j show ?thesis by (metis Suc_leD)
  qed
qed

lemma add_fd_free:
  assumes "check_fd st 0"
  shows "\<exists>j<MAX_FD. target_fd st ! j = 0 \<and> add_fd st fd = (False, st\<lparr>target_fd := (target_fd st)[j := fd]\<rparr>)"
proof -
  from assms obtain k where "k < MAX_FD" "target_fd st ! k = 0"
    by (auto simp: check_fd_iff)
  from add_fd_loop_free [OF le0 this, of fd]
  obtain j where j: "j \<le> k" "target_fd st ! j = 0"
    "add_fd_loop (target_fd st) fd 0 = (False, (target_fd st)[j := fd])" by blast
  from j(1) \<open>k < MAX_FD\<close> have "j < MAX_FD" by simp
  with j(2,3) show ?thesis by (auto simp: add_fd_def)
qed

lemma not_sless_iff: "\<not> (a :: 'a::len word) <s b \<longleftrightarrow> b \<le>s a"
  by (simp add: word_sless_alt word_sle_eq not_less)

lemma scast_int_roundtrip: "scast (scast (r :: c_int) :: off_t) = r"
  by (simp add: scast_down_scast_id is_down)

lemma window_add_exact:
  fixes offset seg_off seg_len :: off64_t
  assumes "0 \<le> sint offset" "sint offset \<le> sint seg_len"
    and "sint seg_off + sint seg_len < 2 ^ 63"
  shows "sint (offset + seg_off) = sint offset + sint seg_off"
proof -
  have lo: "- (2 ^ 63) \<le> sint seg_off" using sint_ge [of seg_off] by simp
  have "sint (offset + seg_off) = signed_take_bit 63 (sint offset + sint seg_off)"
    by (simp add: sint_word_ariths)
  also have "\<dots> = sint offset + sint seg_off"
    using assms lo by (intro signed_take_bit_int_eq_self) auto
  finally show ?thesis .
qed

lemma lseek_tracked:
  assumes "check_fd st fd" "offset \<le>s segment_len st"
  shows "lseek ops st fd offset SEEK_SET s =
     (case p_lseek ops fd (offset + segment_offset st) SEEK_SET s of
        (r, s1) \<Rightarrow>
          if r = offset + segment_offset st then Ret (offset, s1)
          else Ret (- 1 - segment_offset st, s1\<lparr>errno := EINVAL\<rparr>))"
  using assms by (simp add: lseek_def not_sless_iff [symmetric] Let_def split: prod.splits)

lemma lseek64_tracked:
  assumes "check_fd st fd" "offset \<le>s segment_len st"
  shows "lseek64 ops st fd offset SEEK_SET s =
     (case p_lseek64 ops fd (offset + segment_offset st) SEEK_SET s of
        (r, s1) \<Rightarrow>
          if r = offset + segment_offset st then Ret (offset, s1)
          else Ret (- 1 - segment_offset st, s1\<lparr>errno := EINVAL\<rparr>))"
  using assms by (simp add: lseek64_def not_sless_iff [symmetric] Let_def split: prod.splits)

lemma fallocate_tracked:
  assumes "check_fd st fd" "offset \<le>s segment_len st"
  shows "fallocate ops st fd mode offset len s =
     p_fallocate ops fd mode (offset + segment_offset st) len s"
  using assms
  by (simp add: fallocate_def not_sless_iff [symmetric] Let_def scast_int_roundtrip split: prod.splits)

lemma pread64_tracked:
  assumes "check_fd st fd" "offset \<le>s segment_len st"
  shows "pread64 ops st fd buf count offset s =
     p_pread64 ops fd buf count (offset + segment_offset st) s"
  using assms by (simp add: pread64_def not_sless_iff [symmetric])

lemma pwrite64_tracked:
  assumes "check_fd st fd" "offset \<le>s segment_len st"
  shows "pwrite64 ops st fd buf count offset s =
     p_pwrite64 ops fd buf count (offset + segment_offset st) s"
  using assms by (simp add: pwrite64_def not_sless_iff [symmetric])

lemma init_fd_loop_zero:
  "length tfd = MAX_FD \<Longrightarrow> (\<And>j. j < i \<Longrightarrow> tfd ! j = 0) \<Longrightarrow> k < MAX_FD \<Longrightarrow>
   init_fd_loop tfd i ! k = 0"
proof (induction tfd i rule: init_fd_loop.induct)
  case (1 tfd i)
  show ?case
  proof (cases "i < MAX_FD")
    case False
    with "1.prems" show ?thesis by (subst init_fd_loop.simps) simp
  next
    case True
    have "init_fd_loop (tfd[i := 0]) (Suc i) ! k = 0"
    proof (rule "1.IH" [OF True])
      show "length (tfd[i := 0]) = MAX_FD" using "1.prems"(1) by simp
      show "tfd[i := 0] ! j = 0" if "j < Suc i" for j
        using that "1.prems"(1,2) True by (cases "j = i") auto
      show "k < MAX_FD" by fact
    qed
    then show ?thesis using True by (subst init_fd_loop.simps) simp
  qed
qed

lemma init_fd_loop_length: "length (init_fd_loop tfd i) = length tfd"
proof (induction tfd i rule: init_fd_loop.induct)
  case (1 tfd i)
  then show ?case by (subst init_fd_loop.simps) simp
qed

lemma init_Ret_target_fd:
  assumes "init env fopen_ok = Ret st"
  shows "target_fd st = init_fd_loop (replicate MAX_FD 0) 0"
  using assms
  by (auto simp: init_def static_init_def Let_def split: option.splits prod.splits if_splits)

lemma init_Ret_free:
  assumes "init env fopen_ok = Ret st" "k < MAX_FD"
  shows "target_fd st ! k = 0"
  using init_Ret_target_fd [OF assms(1)] init_fd_loop_zero [of "replicate MAX_FD 0" 0 k] assms(2)
  by simp

lemma init_fields_short:
  assumes "length (fields args) < 3"
  shows "init (Some args) fopen_ok = Exit 1"
proof -
  obtain tn o1 where s1: "strtok (Some args) '','' [] = (tn, o1)" by (cases "strtok (Some args) '','' []")
  have s1': "strtok None '','' args = (tn, o1)" using s1 by (simp add: strtok_def)
  obtain p1 o2 where s2: "strtok None '','' o1 = (p1, o2)" by (cases "strtok None '','' o1")
  obtain p2 o3 where s3: "strtok None '','' o2 = (p2, o3)" by (cases "strtok None '','' o2")
  show ?thesis
  proof (cases p1)
    case None
    then show ?thesis using s1 s2 by (simp add: init_def Let_def)
  next
    case (Some a)
    note p1 = this
    show ?thesis
    proof (cases p2)
      case None
      then show ?thesis using s1 s2 s3 p1 by (simp add: init_def Let_def)
    next
      case (Some b)
      have tn: "tn \<noteq> None"
      proof
        assume "tn = None"
        then have "o1 = []" using s1' by (auto simp: strtok_def Let_def split: if_splits)
        then show False using s2 p1 by (simp add: strtok_def)
      qed
      then obtain t where "tn = Some t" by auto
      then have "fields args = t # a # b # fields o3"
        using s1' s2 s3 p1 Some
        by (simp add: fields.simps [of args] fields.simps [of o1] fields.simps [of o2])
      with assms show ?thesis by simp
    qed
  qed
qed

text \<open>
  When \<open>init\<close> returns, the descriptor had at least three fields and the state holds the
  first as the target path and \<open>strtoull\<close> of the second and third as offset and length;
  in particular \<open>target_name\<close> is not \<open>NULL\<close> in any state the wrappers run in.
\<close>

lemma strtok_None_nil: "fst (strtok None d []) = None"
  by (simp add: strtok_def)

lemma strtok_None_rest: "strtok str d olds = (None, r) \<Longrightarrow> r = []"
  by (auto simp: strtok_def Let_def split: if_splits)

lemma init_Ret_fields:
  assumes "init (Some args) fopen_ok = Ret st"
  shows "\<exists>t a b rest. fields args = t # a # b # rest \<and> target_name st = Some t
     \<and> segment_offset st = strtoull a \<and> segment_len st = strtoull b"
proof -
  obtain tn o1 where s1: "strtok (Some args) '','' [] = (tn, o1)"
    by (cases "strtok (Some args) '','' []")
  have s1': "strtok None '','' args = (tn, o1)" using s1 by (simp add: strtok_def)
  obtain p1 o2 where s2: "strtok None '','' o1 = (p1, o2)" by (cases "strtok None '','' o1")
  obtain p2 o3 where s3: "strtok None '','' o2 = (p2, o3)" by (cases "strtok None '','' o2")
  from assms s1 s2 obtain a where p1: "p1 = Some a"
    by (cases p1) (auto simp: init_def Let_def)
  from assms s1 s2 s3 p1 obtain b where p2: "p2 = Some b"
    by (cases p2) (auto simp: init_def Let_def)
  have "tn \<noteq> None"
  proof
    assume "tn = None"
    then have "o1 = []" using s1' by (auto dest: strtok_None_rest)
    then show False using s2 p1 strtok_None_nil [of "'',''"] by simp
  qed
  then obtain t where tn: "tn = Some t" by auto
  have f: "fields args = t # a # b # fields o3"
    using s1' s2 s3 p1 p2 tn
    by (simp add: fields.simps [of args] fields.simps [of o1] fields.simps [of o2])
  have "target_name st = Some t \<and> segment_offset st = strtoull a \<and> segment_len st = strtoull b"
    using assms s1 s2 s3 p1 p2 tn
    by (auto simp: init_def Let_def split: option.splits if_splits)
  with f show ?thesis by blast
qed

lemma stat_size_unconditional:
  "st_size (fst (snd (xstat ops st x path buf s))) = segment_len st"
  "st_size (fst (snd (xstat64 ops st x path buf s))) = segment_len st"
  "st_size (fst (snd (fstat ops st fd buf s))) = segment_len st"
  "st_size (fst (snd (fstat64 ops st fd buf s))) = segment_len st"
  "st_size (fst (snd (fxstat64 ops st vers fd buf s))) = segment_len st"
  by (simp_all add: xstat_def xstat64_def fstat_def fstat64_def fxstat64_def split: prod.splits)

lemma open_c_target_registers:
  assumes "check_name st path" and "check_fd st 0"
    and "p_open ops path flags (if flags AND O_CREAT \<noteq> 0 then vmode else 0) s = (res, s1)"
  shows "\<exists>j<MAX_FD. target_fd st ! j = 0 \<and>
     open_c ops st path flags vmode s = Ret (res, st\<lparr>target_fd := (target_fd st)[j := res]\<rparr>, s1)"
proof -
  from add_fd_free [OF assms(2), of res] obtain j where
    "j < MAX_FD" "target_fd st ! j = 0"
    "add_fd st res = (False, st\<lparr>target_fd := (target_fd st)[j := res]\<rparr>)" by blast
  with assms(1,3) show ?thesis by (auto simp: open_c_def Let_def)
qed

section \<open>The claims of the specification\<close>

text \<open>
  C1. The specification says that a status query whose path is not the target path, or
  whose descriptor is not in the registry, is a pure pass-through: nothing of the returned
  metadata, the size field in particular, is adjusted. The five status wrappers store
  \<open>segment_len\<close> in \<open>buf->st_size\<close> without consulting \<open>check_name\<close> or \<open>check_fd\<close>,
  which they evaluate only for the log line. With the window of the usage example, a query
  on \<open>/etc/mke2fs.conf\<close> (real size 1000, not the target) and on descriptor 4 (not in the
  registry) reports size 33554944 in all five variants.
\<close>

theorem stat_untracked_size_overwritten:
  "\<not> check_name scen ''/etc/mke2fs.conf''
   \<and> p_xstat toy_ops 1 ''/etc/mke2fs.conf'' buf0 toy_sys
       = (0, \<lparr>st_mode = 33188, st_size = 1000\<rparr>, toy_sys)
   \<and> xstat toy_ops scen 1 ''/etc/mke2fs.conf'' buf0 toy_sys
       = (0, \<lparr>st_mode = 33188, st_size = 33554944\<rparr>, toy_sys)
   \<and> xstat64 toy_ops scen 1 ''/etc/mke2fs.conf'' buf0 toy_sys
       = (0, \<lparr>st_mode = 33188, st_size = 33554944\<rparr>, toy_sys)
   \<and> \<not> check_fd scen 4
   \<and> p_fstat toy_ops 4 buf0 toy_sys = (0, \<lparr>st_mode = 33188, st_size = 1000\<rparr>, toy_sys)
   \<and> fstat toy_ops scen 4 buf0 toy_sys = (0, \<lparr>st_mode = 33188, st_size = 33554944\<rparr>, toy_sys)
   \<and> fstat64 toy_ops scen 4 buf0 toy_sys = (0, \<lparr>st_mode = 33188, st_size = 33554944\<rparr>, toy_sys)
   \<and> fxstat64 toy_ops scen 1 4 buf0 toy_sys = (0, \<lparr>st_mode = 33188, st_size = 33554944\<rparr>, toy_sys)"
  by (intro conjI; code_simp)

text \<open>
  C2. The specification says that an intercepted open of the target path puts the returned
  descriptor into the registry exactly when the real open succeeds, and that a failed open
  adds nothing. The three open wrappers call \<open>add_fd(res)\<close> whenever the path is the target
  path, whatever \<open>res\<close> is. When \<open>disk.img\<close> does not exist the real open returns \<open>-1\<close>,
  and the wrapper stores \<open>-1\<close> in the first free slot: \<open>check_fd(-1)\<close> is false before the
  call and true after it.
\<close>

theorem failed_open_registers_result:
  "p_open toy_ops ''disk.img'' 2 0 toy_nofile = (- 1, toy_nofile\<lparr>errno := 2\<rparr>)
   \<and> open_c toy_ops scen_fresh ''disk.img'' 2 0 toy_nofile
       = Ret (- 1, scen_fresh\<lparr>target_fd := (- 1) # replicate 15 0\<rparr>, toy_nofile\<lparr>errno := 2\<rparr>)
   \<and> open64 toy_ops scen_fresh ''disk.img'' 2 0 toy_nofile
       = Ret (- 1, scen_fresh\<lparr>target_fd := (- 1) # replicate 15 0\<rparr>, toy_nofile\<lparr>errno := 2\<rparr>)
   \<and> open64_2 toy_ops scen_fresh ''disk.img'' 2 toy_nofile
       = Ret (- 1, scen_fresh\<lparr>target_fd := (- 1) # replicate 15 0\<rparr>, toy_nofile\<lparr>errno := 2\<rparr>)
   \<and> \<not> check_fd scen_fresh (- 1)
   \<and> check_fd (scen_fresh\<lparr>target_fd := (- 1) # replicate 15 0\<rparr>) (- 1)"
  by (intro conjI; code_simp)

text \<open>
  C3. The specification says that a seek on a tracked descriptor whose real result differs
  from the requested absolute offset surfaces an error to the caller, and that the result
  is translated back to window-relative otherwise. The wrappers set \<open>errno = EINVAL\<close> and
  \<open>res = -1\<close> on a mismatch and then subtract \<open>segment_offset\<close> in either case. With the
  window of the usage example and descriptor 3 tracked, a seek to relative offset 0 whose
  real seek fails with \<open>-1\<close> returns \<open>-44040193\<close>, not the error value \<open>-1\<close> of a seek.
\<close>

theorem seek_mismatch_returns_shifted_value:
  "check_fd scen 3
   \<and> p_lseek64 toy_ops 3 44040192 SEEK_SET toy_fresh = (- 1, toy_fresh\<lparr>errno := 9\<rparr>)
   \<and> lseek64 toy_ops scen 3 0 SEEK_SET toy_fresh = Ret (- 44040193, toy_fresh\<lparr>errno := EINVAL\<rparr>)
   \<and> lseek toy_ops scen 3 0 SEEK_SET toy_fresh = Ret (- 44040193, toy_fresh\<lparr>errno := EINVAL\<rparr>)"
  by (intro conjI; code_simp)

text \<open>
  C4, as stated, fails: \<open>init\<close> does not end the process when the offset field or the
  length field is not a number. \<open>strtoull\<close> is called with a \<open>NULL\<close> end pointer and its
  result is stored unchecked, so a field without digits configures the value 0.
\<close>

theorem init_nonnumeric_counterexample:
  "init (Some ''disk.img,abc,33554944'') True = Ret (scen_fresh\<lparr>segment_offset := 0\<rparr>)
   \<and> init (Some ''disk.img,44040192,xyz'') True = Ret (scen_fresh\<lparr>segment_len := 0\<rparr>)"
  by (intro conjI; code_simp)

text \<open>
  C4, amended. Window configuration parsing ends the process with \<open>exit(1)\<close> if the
  environment descriptor is absent, or if the offset field or the length field is missing,
  that is, if the descriptor has fewer than three non-empty comma-separated fields; no
  configuration state is produced in these cases.
\<close>

theorem init_fatal_when_missing:
  "(env = None \<longrightarrow> init env fopen_ok = Exit 1)
   \<and> (length (fields args) < 3 \<longrightarrow> init (Some args) fopen_ok = Exit 1)"
  by (simp add: init_fields_short) (simp add: init_def)

theorem init_fatal_when_missing_witness:
  "init None True = Exit 1
   \<and> length (fields ''disk.img,44040192'') < 3
   \<and> init (Some ''disk.img,44040192'') True = Exit 1"
proof -
  have h: "length (fields ''disk.img,44040192'') < 3" by code_simp
  from init_fatal_when_missing [of None True "''disk.img,44040192''"] h
  show ?thesis by simp
qed

text \<open>
  C5. The specification says that a seek on a tracked descriptor to a relative offset
  greater than the window length is rejected with an out-of-bounds error that reaches the
  caller through the normal error return of the operation, without ending the process and
  without calling the real seek. The wrappers do not exit and do not call the real seek,
  but they execute \<open>return EINVAL\<close>: the seek returns the value 22 and leaves \<open>errno\<close> as it
  was (0 here), which by the contract of a seek is a successful result, the new position
  22. The mismatch path of the same functions reports its error as \<open>errno = EINVAL\<close> with
  \<open>res = -1\<close>.
\<close>

theorem seek_out_of_bounds_returns_22:
  "check_fd scen 3
   \<and> lseek64 toy_ops scen 3 33554945 SEEK_SET toy_sys = Ret (22, toy_sys)
   \<and> lseek toy_ops scen 3 33554945 SEEK_SET toy_sys = Ret (22, toy_sys)
   \<and> errno toy_sys = 0"
  by (intro conjI; code_simp)

text \<open>
  C6, as stated, fails. The specification says that for every configured window and every
  relative offset \<open>o\<close> with \<open>0 \<le> o \<le> L\<close> the translation yields \<open>o + B\<close>, and that every
  \<open>o > L\<close> yields an out-of-bounds error, never a wrapped offset. The wrappers compute
  \<open>offset_new += segment_offset\<close> in the signed 64-bit offset type with no overflow check,
  and compare with the signed \<open>segment_len\<close>.
  \<^item> With \<open>B = L = 2^63 - 1\<close>, which \<open>init\<close> accepts, and \<open>o = 1\<close>, the positioned transfers
    and the space allocation call the real operation at \<open>-2^63\<close>, not at \<open>o + B = 2^63\<close>.
  \<^item> With \<open>L = 2^63\<close>, which \<open>init\<close> accepts and stores as a negative \<open>segment_len\<close>, the
    offset 0 is rejected.
  \<^item> With the window of the usage example and \<open>o = L + 1\<close>, the positioned read returns 28,
    the positioned write 22 and the seek 22, with \<open>errno\<close> left at 0: by the contracts of
    these operations a byte count and a position, not an error.
\<close>

theorem translation_wraps_counterexample:
  "init (Some ''disk.img,9223372036854775807,9223372036854775807'') True
       = Ret (scen_max\<lparr>target_fd := replicate 16 0\<rparr>)
   \<and> check_fd scen_max 3
   \<and> 0 \<le> sint (1 :: off64_t) \<and> sint (1 :: off64_t) \<le> sint (segment_len scen_max)
   \<and> sint (1 :: off64_t) + sint (segment_offset scen_max) = 9223372036854775808
   \<and> pread64 toy_ops scen_max 3 4096 512 1 toy_sys
       = p_pread64 toy_ops 3 4096 512 (- 9223372036854775808) toy_sys
   \<and> pwrite64 toy_ops scen_max 3 4096 512 1 toy_sys
       = p_pwrite64 toy_ops 3 4096 512 (- 9223372036854775808) toy_sys
   \<and> fallocate toy_ops scen_max 3 0 1 4096 toy_sys
       = p_fallocate toy_ops 3 0 (- 9223372036854775808) 4096 toy_sys
   \<and> sint (- 9223372036854775808 :: off64_t) = - 9223372036854775808
   \<and> init (Some ''disk.img,0,9223372036854775808'') True
       = Ret (scen_big\<lparr>target_fd := replicate 16 0\<rparr>)
   \<and> check_fd scen_big 3
   \<and> uint (segment_len scen_big) = 9223372036854775808
   \<and> pread64 toy_ops scen_big 3 4096 512 0 toy_sys = (28, toy_sys)
   \<and> check_fd scen 3
   \<and> sint (segment_len scen) < sint (33554945 :: off64_t)
   \<and> errno toy_sys = 0
   \<and> pread64 toy_ops scen 3 4096 512 33554945 toy_sys = (28, toy_sys)
   \<and> pwrite64 toy_ops scen 3 4096 512 33554945 toy_sys = (22, toy_sys)
   \<and> lseek64 toy_ops scen 3 33554945 SEEK_SET toy_sys = Ret (22, toy_sys)"
  by (intro conjI; code_simp)

text \<open>
  C6, amended. For a tracked descriptor and a window whose base \<open>B\<close> and length \<open>L\<close>, read
  as the signed 64-bit values the code holds, have \<open>B + L \<le> 2^63 - 1\<close>, and for a relative
  offset \<open>o\<close> with \<open>0 \<le> o \<le> L\<close>: the absolute offset computed by the seeks, the positioned
  read and write and the space allocation is exactly \<open>o + B\<close>, and the real operation is
  called with it: a positioned transfer or a space allocation is the real operation at
  \<open>o + B\<close>; a seek depends on the real seek only through its result at \<open>o + B\<close>, and
  returns \<open>o\<close> when that result is \<open>o + B\<close>. For \<open>o > L\<close> no offset is passed on: each
  wrapper returns without ending the process, its result is the same whatever the real
  operations are, and the outside state is as it was.
\<close>

theorem translation_exact_in_range:
  assumes "check_fd st fd"
  shows
  "(0 \<le> sint offset \<and> sint offset \<le> sint (segment_len st)
      \<and> sint (segment_offset st) + sint (segment_len st) < 2 ^ 63 \<longrightarrow>
      sint (offset + segment_offset st) = sint offset + sint (segment_offset st)
      \<and> (p_lseek ops fd (offset + segment_offset st) SEEK_SET s = (offset + segment_offset st, s1)
           \<longrightarrow> lseek ops st fd offset SEEK_SET s = Ret (offset, s1))
      \<and> (p_lseek ops2 fd (offset + segment_offset st) SEEK_SET s
             = p_lseek ops fd (offset + segment_offset st) SEEK_SET s
           \<longrightarrow> lseek ops2 st fd offset SEEK_SET s = lseek ops st fd offset SEEK_SET s)
      \<and> (p_lseek64 ops fd (offset + segment_offset st) SEEK_SET s = (offset + segment_offset st, s1)
           \<longrightarrow> lseek64 ops st fd offset SEEK_SET s = Ret (offset, s1))
      \<and> (p_lseek64 ops2 fd (offset + segment_offset st) SEEK_SET s
             = p_lseek64 ops fd (offset + segment_offset st) SEEK_SET s
           \<longrightarrow> lseek64 ops2 st fd offset SEEK_SET s = lseek64 ops st fd offset SEEK_SET s)
      \<and> pread64 ops st fd buf count offset s =
          p_pread64 ops fd buf count (offset + segment_offset st) s
      \<and> pwrite64 ops st fd buf count offset s =
          p_pwrite64 ops fd buf count (offset + segment_offset st) s
      \<and> fallocate ops st fd mode offset len s =
          p_fallocate ops fd mode (offset + segment_offset st) len s)
   \<and> (sint (segment_len st) < sint offset \<longrightarrow>
      lseek ops st fd offset SEEK_SET s = lseek ops2 st fd offset SEEK_SET s
      \<and> (case lseek ops st fd offset SEEK_SET s of Exit e \<Rightarrow> False | Ret (r, s1) \<Rightarrow> s1 = s)
      \<and> lseek64 ops st fd offset SEEK_SET s = lseek64 ops2 st fd offset SEEK_SET s
      \<and> (case lseek64 ops st fd offset SEEK_SET s of Exit e \<Rightarrow> False | Ret (r, s1) \<Rightarrow> s1 = s)
      \<and> pread64 ops st fd buf count offset s = pread64 ops2 st fd buf count offset s
      \<and> snd (pread64 ops st fd buf count offset s) = s
      \<and> pwrite64 ops st fd buf count offset s = pwrite64 ops2 st fd buf count offset s
      \<and> snd (pwrite64 ops st fd buf count offset s) = s
      \<and> fallocate ops st fd mode offset len s = fallocate ops2 st fd mode offset len s
      \<and> snd (fallocate ops st fd mode offset len s) = s)"
proof (intro conjI impI)
  assume b: "0 \<le> sint offset \<and> sint offset \<le> sint (segment_len st)
      \<and> sint (segment_offset st) + sint (segment_len st) < 2 ^ 63"
  then have le: "offset \<le>s segment_len st" by (simp add: word_sle_eq)
  from b show "sint (offset + segment_offset st) = sint offset + sint (segment_offset st)"
    by (intro window_add_exact) auto
  show "lseek ops st fd offset SEEK_SET s = Ret (offset, s1)"
    if "p_lseek ops fd (offset + segment_offset st) SEEK_SET s = (offset + segment_offset st, s1)"
    using that by (simp add: lseek_tracked [OF assms le])
  show "lseek ops2 st fd offset SEEK_SET s = lseek ops st fd offset SEEK_SET s"
    if "p_lseek ops2 fd (offset + segment_offset st) SEEK_SET s
          = p_lseek ops fd (offset + segment_offset st) SEEK_SET s"
    using that by (simp add: lseek_tracked [OF assms le])
  show "lseek64 ops st fd offset SEEK_SET s = Ret (offset, s1)"
    if "p_lseek64 ops fd (offset + segment_offset st) SEEK_SET s = (offset + segment_offset st, s1)"
    using that by (simp add: lseek64_tracked [OF assms le])
  show "lseek64 ops2 st fd offset SEEK_SET s = lseek64 ops st fd offset SEEK_SET s"
    if "p_lseek64 ops2 fd (offset + segment_offset st) SEEK_SET s
          = p_lseek64 ops fd (offset + segment_offset st) SEEK_SET s"
    using that by (simp add: lseek64_tracked [OF assms le])
  show "pread64 ops st fd buf count offset s =
          p_pread64 ops fd buf count (offset + segment_offset st) s"
    by (rule pread64_tracked [OF assms le])
  show "pwrite64 ops st fd buf count offset s =
          p_pwrite64 ops fd buf count (offset + segment_offset st) s"
    by (rule pwrite64_tracked [OF assms le])
  show "fallocate ops st fd mode offset len s =
          p_fallocate ops fd mode (offset + segment_offset st) len s"
    by (rule fallocate_tracked [OF assms le])
next
  assume "sint (segment_len st) < sint offset"
  then have gt: "segment_len st <s offset" by (simp add: word_sless_alt)
  show "lseek ops st fd offset SEEK_SET s = lseek ops2 st fd offset SEEK_SET s"
    using assms gt by (simp add: lseek_def)
  show "case lseek ops st fd offset SEEK_SET s of Exit e \<Rightarrow> False | Ret (r, s1) \<Rightarrow> s1 = s"
    using assms gt by (simp add: lseek_def)
  show "lseek64 ops st fd offset SEEK_SET s = lseek64 ops2 st fd offset SEEK_SET s"
    using assms gt by (simp add: lseek64_def)
  show "case lseek64 ops st fd offset SEEK_SET s of Exit e \<Rightarrow> False | Ret (r, s1) \<Rightarrow> s1 = s"
    using assms gt by (simp add: lseek64_def)
  show "pread64 ops st fd buf count offset s = pread64 ops2 st fd buf count offset s"
    using assms gt by (simp add: pread64_def)
  show "snd (pread64 ops st fd buf count offset s) = s"
    using assms gt by (simp add: pread64_def)
  show "pwrite64 ops st fd buf count offset s = pwrite64 ops2 st fd buf count offset s"
    using assms gt by (simp add: pwrite64_def)
  show "snd (pwrite64 ops st fd buf count offset s) = s"
    using assms gt by (simp add: pwrite64_def)
  show "fallocate ops st fd mode offset len s = fallocate ops2 st fd mode offset len s"
    using assms gt by (simp add: fallocate_def)
  show "snd (fallocate ops st fd mode offset len s) = s"
    using assms gt by (simp add: fallocate_def)
qed

theorem translation_exact_in_range_witness:
  "check_fd scen 3
   \<and> (0 \<le> sint (33554944 :: off64_t) \<and> sint (33554944 :: off64_t) \<le> sint (segment_len scen)
      \<and> sint (segment_offset scen) + sint (segment_len scen) < 2 ^ 63)
   \<and> sint (33554944 + segment_offset scen) = sint (33554944 :: off64_t) + sint (segment_offset scen)
   \<and> p_lseek64 toy_ops 3 (33554944 + segment_offset scen) SEEK_SET toy_sys
       = (33554944 + segment_offset scen, toy_sys)
   \<and> lseek64 toy_ops scen 3 33554944 SEEK_SET toy_sys = Ret (33554944, toy_sys)
   \<and> pwrite64 toy_ops scen 3 4096 512 33554944 toy_sys
       = p_pwrite64 toy_ops 3 4096 512 77595136 toy_sys
   \<and> sint (segment_len scen) < sint (33554945 :: off64_t)
   \<and> pread64 toy_ops scen 3 4096 512 33554945 toy_sys
       = pread64 (toy_ops\<lparr>p_pread64 := \<lambda>fd buf count offset s. (0, s\<lparr>errno := 5\<rparr>)\<rparr>)
           scen 3 4096 512 33554945 toy_sys
   \<and> snd (pread64 toy_ops scen 3 4096 512 33554945 toy_sys) = toy_sys
   \<and> snd (fallocate toy_ops scen 3 0 33554945 4096 toy_sys) = toy_sys"
proof -
  have t: "check_fd scen 3" by code_simp
  have a: "0 \<le> sint (33554944 :: off64_t) \<and> sint (33554944 :: off64_t) \<le> sint (segment_len scen)
      \<and> sint (segment_offset scen) + sint (segment_len scen) < 2 ^ 63"
    by code_simp
  have b: "sint (segment_len scen) < sint (33554945 :: off64_t)" by code_simp
  have so: "(33554944 :: off64_t) + segment_offset scen = 77595136" by code_simp
  have r: "p_lseek64 toy_ops 3 (33554944 + segment_offset scen) SEEK_SET toy_sys
       = (33554944 + segment_offset scen, toy_sys)" by code_simp
  note in_w = translation_exact_in_range [OF t, of 33554944 toy_ops toy_sys toy_sys toy_ops 4096 512 0 4096,
      THEN conjunct1, rule_format, OF a]
  note out_w = translation_exact_in_range [OF t, of 33554945 toy_ops toy_sys toy_sys
      "toy_ops\<lparr>p_pread64 := \<lambda>fd buf count offset s. (0, s\<lparr>errno := 5\<rparr>)\<rparr>" 4096 512 0 4096,
      THEN conjunct2, rule_format, OF b]
  from in_w have c1:
    "sint (33554944 + segment_offset scen) = sint (33554944 :: off64_t) + sint (segment_offset scen)"
    by blast
  from in_w r have c2: "lseek64 toy_ops scen 3 33554944 SEEK_SET toy_sys = Ret (33554944, toy_sys)"
    by blast
  from in_w have c3: "pwrite64 toy_ops scen 3 4096 512 33554944 toy_sys
       = p_pwrite64 toy_ops 3 4096 512 77595136 toy_sys"
    by (simp add: so)
  from out_w have c4: "pread64 toy_ops scen 3 4096 512 33554945 toy_sys
       = pread64 (toy_ops\<lparr>p_pread64 := \<lambda>fd buf count offset s. (0, s\<lparr>errno := 5\<rparr>)\<rparr>)
           scen 3 4096 512 33554945 toy_sys"
    by blast
  from out_w have c5: "snd (pread64 toy_ops scen 3 4096 512 33554945 toy_sys) = toy_sys"
    by blast
  from out_w have c6: "snd (fallocate toy_ops scen 3 0 33554945 4096 toy_sys) = toy_sys"
    by blast
  from t a c1 r c2 c3 b c4 c5 c6 show ?thesis by blast
qed

text \<open>
  C7. A status query against the target path (\<open>__xstat\<close>, \<open>__xstat64\<close>) or a tracked
  descriptor (\<open>fstat\<close>, \<open>fstat64\<close>, \<open>__fxstat64\<close>) calls the real query and returns its result
  and its outside state; the structure it reports is the one the real query filled in with
  the size field replaced by \<open>segment_len\<close>, whatever size the real query reported, and
  every other field as the real query left it.
\<close>

theorem stat_reports_window_length:
  assumes "check_name st path" and "check_fd st fd"
  shows
  "xstat ops st x path buf s =
      (case p_xstat ops x path buf s of
         (res, buf1, s1) \<Rightarrow> (res, buf1\<lparr>st_size := segment_len st\<rparr>, s1))
   \<and> xstat64 ops st x path buf s =
      (case p_xstat64 ops x path buf s of
         (res, buf1, s1) \<Rightarrow> (res, buf1\<lparr>st_size := segment_len st\<rparr>, s1))
   \<and> fstat ops st fd buf s =
      (case p_fstat ops fd buf s of
         (res, buf1, s1) \<Rightarrow> (res, buf1\<lparr>st_size := segment_len st\<rparr>, s1))
   \<and> fstat64 ops st fd buf s =
      (case p_fstat64 ops fd buf s of
         (res, buf1, s1) \<Rightarrow> (res, buf1\<lparr>st_size := segment_len st\<rparr>, s1))
   \<and> fxstat64 ops st vers fd buf s =
      (case p_fxstat64 ops vers fd buf s of
         (res, buf1, s1) \<Rightarrow> (res, buf1\<lparr>st_size := segment_len st\<rparr>, s1))"
  by (simp add: xstat_def xstat64_def fstat_def fstat64_def fxstat64_def)

theorem stat_reports_window_length_witness:
  "check_name scen ''disk.img'' \<and> check_fd scen 3
   \<and> p_xstat64 toy_ops 1 ''disk.img'' buf0 toy_sys
       = (0, \<lparr>st_mode = 33188, st_size = 1073741824\<rparr>, toy_sys)
   \<and> xstat64 toy_ops scen 1 ''disk.img'' buf0 toy_sys
       = (0, \<lparr>st_mode = 33188, st_size = 33554944\<rparr>, toy_sys)
   \<and> fxstat64 toy_ops scen 1 3 buf0 toy_sys
       = (0, \<lparr>st_mode = 33188, st_size = 33554944\<rparr>, toy_sys)"
proof -
  have n: "check_name scen ''disk.img''" by code_simp
  have t: "check_fd scen 3" by code_simp
  have r1: "p_xstat64 toy_ops 1 ''disk.img'' buf0 toy_sys
       = (0, \<lparr>st_mode = 33188, st_size = 1073741824\<rparr>, toy_sys)" by code_simp
  have r2: "p_fxstat64 toy_ops 1 3 buf0 toy_sys
       = (0, \<lparr>st_mode = 33188, st_size = 1073741824\<rparr>, toy_sys)" by code_simp
  have l: "segment_len scen = 33554944" by code_simp
  from stat_reports_window_length [OF n t, of toy_ops 1 buf0 toy_sys 1]
  show ?thesis by (simp add: n t r1 r2 l)
qed

text \<open>
  C8. When each of the sixteen slots of the registry holds a descriptor (no slot holds the
  free marker 0), an intercepted open of the target path, in any of the three open
  variants, ends the process with \<open>exit(1)\<close>; it does not return the descriptor.
\<close>

theorem open_full_registry_exits:
  assumes "length (target_fd st) = MAX_FD" and "0 \<notin> set (target_fd st)"
    and "check_name st path"
  shows "open_c ops st path flags vmode s = Exit 1
   \<and> open64 ops st path flags vmode s = Exit 1
   \<and> open64_2 ops st path flags s = Exit 1"
proof -
  from assms(1,2) have "\<not> check_fd st 0" by (simp add: check_fd_set)
  then have full: "add_fd st fd = (True, st)" for fd by (rule add_fd_full)
  show ?thesis
    using assms(3) by (simp add: open_c_def open64_def open64_2_def Let_def full split: prod.splits)
qed

theorem open_full_registry_exits_witness:
  "length (target_fd scen_full) = MAX_FD \<and> 0 \<notin> set (target_fd scen_full)
   \<and> check_name scen_full ''disk.img''
   \<and> fst (p_open toy_ops ''disk.img'' 2 0 toy_sys) = 5
   \<and> open_c toy_ops scen_full ''disk.img'' 2 0 toy_sys = Exit 1
   \<and> open64 toy_ops scen_full ''disk.img'' 2 0 toy_sys = Exit 1
   \<and> open64_2 toy_ops scen_full ''disk.img'' 2 toy_sys = Exit 1"
proof -
  have l: "length (target_fd scen_full) = MAX_FD" by code_simp
  have z: "0 \<notin> set (target_fd scen_full)" by code_simp
  have n: "check_name scen_full ''disk.img''" by code_simp
  have r: "fst (p_open toy_ops ''disk.img'' 2 0 toy_sys) = 5" by code_simp
  from open_full_registry_exits [OF l z n, of toy_ops 2 0 toy_sys]
  show ?thesis by (simp add: l z n r)
qed



text \<open>
  C10. Free slots hold the value 0, so \<open>check_fd(0)\<close> is true exactly when some slot is
  free; it is true in the state \<open>init\<close> leaves, in which nothing has been registered.
  While it is true, the descriptor-based wrappers treat descriptor 0 as tracked: the
  positioned transfers, the space allocation and the seeks translate the offset by
  \<open>segment_offset\<close>, and a seek with a reference point other than \<open>SEEK_SET\<close> ends the
  process.
\<close>

theorem descriptor_zero_tracked_while_slot_free:
  "(check_fd st 0 \<longleftrightarrow> (\<exists>j<MAX_FD. target_fd st ! j = 0))
   \<and> (init env fopen_ok = Ret st0 \<longrightarrow> check_fd st0 0)
   \<and> (check_fd st 0 \<and> offset \<le>s segment_len st \<longrightarrow>
        pread64 ops st 0 buf count offset s =
          p_pread64 ops 0 buf count (offset + segment_offset st) s
        \<and> pwrite64 ops st 0 buf count offset s =
          p_pwrite64 ops 0 buf count (offset + segment_offset st) s
        \<and> fallocate ops st 0 mode offset len s =
          p_fallocate ops 0 mode (offset + segment_offset st) len s
        \<and> lseek ops st 0 offset SEEK_SET s =
          (case p_lseek ops 0 (offset + segment_offset st) SEEK_SET s of
             (r, s1) \<Rightarrow>
               if r = offset + segment_offset st then Ret (offset, s1)
               else Ret (- 1 - segment_offset st, s1\<lparr>errno := EINVAL\<rparr>))
        \<and> lseek64 ops st 0 offset SEEK_SET s =
          (case p_lseek64 ops 0 (offset + segment_offset st) SEEK_SET s of
             (r, s1) \<Rightarrow>
               if r = offset + segment_offset st then Ret (offset, s1)
               else Ret (- 1 - segment_offset st, s1\<lparr>errno := EINVAL\<rparr>)))
   \<and> (check_fd st 0 \<and> whence \<noteq> SEEK_SET \<longrightarrow>
        lseek ops st 0 offset whence s = Exit 1 \<and> lseek64 ops st 0 offset whence s = Exit 1)"
proof (intro conjI impI)
  show "check_fd st 0 \<longleftrightarrow> (\<exists>j<MAX_FD. target_fd st ! j = 0)" by (rule check_fd_iff)
next
  assume "init env fopen_ok = Ret st0"
  then have "target_fd st0 ! 0 = 0" by (rule init_Ret_free) (simp add: MAX_FD_def)
  then show "check_fd st0 0" unfolding check_fd_iff by (intro exI [of _ 0]) (simp add: MAX_FD_def)
next
  assume a: "check_fd st 0 \<and> offset \<le>s segment_len st"
  then have t: "check_fd st 0" and le: "offset \<le>s segment_len st" by simp_all
  show "pread64 ops st 0 buf count offset s =
          p_pread64 ops 0 buf count (offset + segment_offset st) s"
    by (rule pread64_tracked [OF t le])
  show "pwrite64 ops st 0 buf count offset s =
          p_pwrite64 ops 0 buf count (offset + segment_offset st) s"
    by (rule pwrite64_tracked [OF t le])
  show "fallocate ops st 0 mode offset len s =
          p_fallocate ops 0 mode (offset + segment_offset st) len s"
    by (rule fallocate_tracked [OF t le])
  show "lseek ops st 0 offset SEEK_SET s =
          (case p_lseek ops 0 (offset + segment_offset st) SEEK_SET s of
             (r, s1) \<Rightarrow>
               if r = offset + segment_offset st then Ret (offset, s1)
               else Ret (- 1 - segment_offset st, s1\<lparr>errno := EINVAL\<rparr>))"
    by (rule lseek_tracked [OF t le])
  show "lseek64 ops st 0 offset SEEK_SET s =
          (case p_lseek64 ops 0 (offset + segment_offset st) SEEK_SET s of
             (r, s1) \<Rightarrow>
               if r = offset + segment_offset st then Ret (offset, s1)
               else Ret (- 1 - segment_offset st, s1\<lparr>errno := EINVAL\<rparr>))"
    by (rule lseek64_tracked [OF t le])
next
  assume a: "check_fd st 0 \<and> whence \<noteq> SEEK_SET"
  then show "lseek ops st 0 offset whence s = Exit 1" by (simp add: lseek_def)
  from a show "lseek64 ops st 0 offset whence s = Exit 1" by (simp add: lseek64_def)
qed

theorem descriptor_zero_tracked_while_slot_free_witness:
  "check_fd scen 0 \<and> \<not> check_fd scen_full 0
   \<and> init (Some ''disk.img,44040192,33554944'') True = Ret scen_fresh
   \<and> check_fd scen_fresh 0
   \<and> (512 :: off64_t) \<le>s segment_len scen
   \<and> pread64 toy_ops scen 0 4096 16 512 toy_sys = p_pread64 toy_ops 0 4096 16 44040704 toy_sys
   \<and> lseek64 toy_ops scen 0 512 SEEK_SET toy_sys = Ret (- 44040193, toy_sys\<lparr>errno := 22\<rparr>)
   \<and> lseek64 toy_ops scen 0 0 1 toy_sys = Exit 1"
proof -
  have t: "check_fd scen 0" by code_simp
  have f: "\<not> check_fd scen_full 0" by code_simp
  have i: "init (Some ''disk.img,44040192,33554944'') True = Ret scen_fresh" by code_simp
  have b: "(512 :: off64_t) \<le>s segment_len scen" by code_simp
  have so: "(512 :: off64_t) + segment_offset scen = 44040704" "segment_offset scen = 44040192"
    by code_simp+
  have r: "p_lseek64 toy_ops 0 44040704 SEEK_SET toy_sys = (- 1, toy_sys\<lparr>errno := 9\<rparr>)"
    by code_simp
  have w: "(1 :: c_int) \<noteq> SEEK_SET" by code_simp
  note th = descriptor_zero_tracked_while_slot_free
  from th [of scen "Some ''disk.img,44040192,33554944''" True scen_fresh 512 toy_ops 4096 16
              toy_sys 0 4096 1]
       th [of scen None True scen_fresh 0 toy_ops 4096 16 toy_sys 0 4096 1]
  show ?thesis
    by (simp add: t f i b so r w EINVAL_def)
qed

end
